theory Spec2Isabelle
  imports Complex_Main "HOL-Library.Word"
begin

unbundle bit_operations_syntax

section \<open>Conventions of the embedding\<close>

text \<open>
  The development embeds the numerical core of the XPS IRF simulator: the physics
  kernels (\<^verbatim>\<open>physics.ts\<close>), the forward simulator (\<^verbatim>\<open>simulator.ts\<close>), the
  optimizers (\<^verbatim>\<open>optimization.ts\<close>) and the fitting entry points
  (\<^verbatim>\<open>fitting.ts\<close>).

  \<^item> A JavaScript \<^verbatim>\<open>number\<close> that carries a physical quantity is a \<^typ>\<open>real\<close>:
    arithmetic is exact, so rounding, \<^verbatim>\<open>NaN\<close> and the infinities have no counterpart.
    The model agrees with the code on inputs where the code neither divides by zero
    nor reads an array past its end; where a function can leave that domain the
    text at its definition says so.
  \<^item> Array sizes, indices and counters are \<^typ>\<open>nat\<close> or \<^typ>\<open>int\<close>.
  \<^item> The 32-bit conversions inside the seeded random generator are computed on
    \<^typ>\<open>32 word\<close>.
  \<^item> Optional fields and optional arguments are \<^typ>\<open>'a option\<close>; the source's
    defaults are applied where the source applies them.
  \<^item> Record fields carry a prefix naming their interface (\<open>grid_\<close>, \<open>par_\<close>,
    \<open>res_\<close>, ...), because TypeScript field names repeat across interfaces and
    coincide with parameter names.
  \<^item> A computation that may fail to return (the rejection loop of Differential
    Evolution) yields an \<^typ>\<open>'a option\<close>, \<^term>\<open>None\<close> meaning that no value is
    ever returned; an exception is a value of the sum type.
\<close>

section \<open>Physics kernels\<close>

text \<open>Boltzmann constant in eV/K (\<^verbatim>\<open>8.617333262e-5\<close>).\<close>

definition KB :: real where
  "KB = 0.00008617333262"

text \<open>
  \<^verbatim>\<open>erf\<close>: the Abramowitz--Stegun rational approximation, evaluated by Horner's
  scheme on \<open>\<bar>x\<bar>\<close> and multiplied by the sign of \<open>x\<close>. The source overwrites its
  parameter with \<open>\<bar>x\<bar>\<close>; the model names the incoming value \<open>x0\<close>.
\<close>

definition erf :: "real \<Rightarrow> real" where
  "erf x0 =
     (let a1 = 0.254829592; a2 = - 0.284496736; a3 = 1.421413741;
          a4 = - 1.453152027; a5 = 1.061405429; p = 0.3275911;
          sign = (if x0 < 0 then - 1 else 1);
          x = \<bar>x0\<bar>;
          t = 1 / (1 + p * x);
          y = 1 - (((((a5 * t + a4) * t + a3) * t + a2) * t + a1) * t * exp (- x * x))
      in sign * y)"

text \<open>
  \<^verbatim>\<open>fermiDirac\<close>: below 0.1 K the step function, otherwise the logistic function of
  the clamped reduced energy. The default argument \<^verbatim>\<open>ef = 0\<close> is passed explicitly.
\<close>

definition fermiDirac :: "real list \<Rightarrow> real \<Rightarrow> real \<Rightarrow> real list" where
  "fermiDirac energy temp ef =
     (if temp < 0.1 then map (\<lambda>e. if e \<le> ef then 1 else 0) energy
      else map (\<lambda>e. let val = max (- 100) (min 100 ((e - ef) / (KB * temp)))
                     in 1 / (exp val + 1)) energy)"

text \<open>\<^verbatim>\<open>skewGaussian\<close>; the source divides by \<open>sigma\<close>, so \<open>sigma = 0\<close> is outside the model.\<close>

definition skewGaussian :: "real list \<Rightarrow> real \<Rightarrow> real \<Rightarrow> real list" where
  "skewGaussian x sigma gamma =
     (let sqrt2pi = sqrt (2 * pi); sqrt2 = sqrt 2 in
      map (\<lambda>xi. let phi = exp (- xi * xi / (2 * sigma * sigma)) / (sigma * sqrt2pi);
                     cdf = 0.5 * (1 + erf (gamma * xi / (sigma * sqrt2)))
                 in 2 * phi * cdf) x)"

text \<open>
  \<^verbatim>\<open>ellipticalGaussian2D\<close>: the cells are filled row by row, their running sum is
  kept, and the matrix is divided by the sum when it exceeds \<open>1e-12\<close>. The column
  count is read from the first row of \<open>E\<close>, which the source requires to exist.
\<close>

definition ellipticalGaussian2D ::
  "real list list \<Rightarrow> real list list \<Rightarrow> real \<Rightarrow> real \<Rightarrow> real \<Rightarrow> real \<Rightarrow> real \<Rightarrow> real list list" where
  "ellipticalGaussian2D E Y sigmaX sigmaY gammaX gammaY rotation =
     (let theta = rotation * pi / 180;
          cosTheta = cos theta;
          sinTheta = sin theta;
          sqrt2 = sqrt 2;
          rows = length E;
          cols = length (E ! 0);
          result = map (\<lambda>i. map (\<lambda>j.
              let x = E ! i ! j;
                  y = Y ! i ! j;
                  xRot = x * cosTheta - y * sinTheta;
                  yRot = x * sinTheta + y * cosTheta;
                  phiX = exp (- xRot * xRot / (2 * sigmaX * sigmaX));
                  cdfX = 0.5 * (1 + erf (gammaX * xRot / (sigmaX * sqrt2)));
                  distX = 2 * phiX * cdfX;
                  phiY = exp (- yRot * yRot / (2 * sigmaY * sigmaY));
                  cdfY = 0.5 * (1 + erf (gammaY * yRot / (sigmaY * sqrt2)));
                  distY = 2 * phiY * cdfY
              in distX * distY) [0..<cols]) [0..<rows];
          total = sum_list (map sum_list result)
      in if total > 1 / 10 ^ 12 then map (map (\<lambda>v. v / total)) result else result)"

text \<open>
  \<^verbatim>\<open>interp\<close>: the binary search for the interval of \<open>x\<close> is the loop
  \<^verbatim>\<open>while (hi - lo > 1)\<close>; it returns the final pair \<open>(lo, hi)\<close>.
\<close>

function interp_search :: "real list \<Rightarrow> real \<Rightarrow> nat \<Rightarrow> nat \<Rightarrow> nat \<times> nat" where
  "interp_search xOld x lo hi =
     (if hi - lo > 1
      then (let mid = (lo + hi) div 2
            in if xOld ! mid \<le> x then interp_search xOld x mid hi
               else interp_search xOld x lo mid)
      else (lo, hi))"
  by pat_completeness auto
termination
  by (relation "measure (\<lambda>(xOld, x, lo, hi). hi - lo)") auto

declare interp_search.simps [simp del]

definition interp ::
  "real list \<Rightarrow> real list \<Rightarrow> real list \<Rightarrow> real option \<Rightarrow> real option \<Rightarrow> real list" where
  "interp xNew xOld yOld leftVal rightVal =
     (let left = (case leftVal of Some v \<Rightarrow> v | None \<Rightarrow> yOld ! 0);
          right = (case rightVal of Some v \<Rightarrow> v | None \<Rightarrow> yOld ! (length yOld - 1))
      in map (\<lambda>x.
           if x \<le> xOld ! 0 then left
           else if x \<ge> xOld ! (length xOld - 1) then right
           else (let (lo, hi) = interp_search xOld x 0 (length xOld - 1);
                     t = (x - xOld ! lo) / (xOld ! hi - xOld ! lo)
                 in yOld ! lo + t * (yOld ! hi - yOld ! lo))) xNew)"

text \<open>
  \<^verbatim>\<open>convolve\<close>: the data are padded on both sides with copies of their first and
  last entry, and every output is the dot product of the kernel with a window of
  the padded array.
\<close>

definition convolve :: "real list \<Rightarrow> real list \<Rightarrow> real list" where
  "convolve data kern =
     (let padSize = length kern div 2;
          n = length data;
          padded = replicate padSize (data ! 0) @ data @ replicate padSize (data ! (n - 1))
      in map (\<lambda>i. sum_list (map (\<lambda>k. padded ! (i + k) * kern ! k) [0..<length kern]))
             [0..<n])"

text \<open>
  \<^verbatim>\<open>gaussianKernel\<close>: the half-width is \<open>\<lceil>5\<sigma>/de\<rceil>\<close>, the loop runs over the integers
  from \<open>-width\<close> to \<open>width\<close>. With \<open>de = 0\<close> the quotient is not a real number in the
  source; the model is meant for \<open>de \<noteq> 0\<close> (HOL evaluates the quotient to \<open>0\<close> there,
  which selects the identity kernel).
\<close>

definition gaussianKernel :: "real \<Rightarrow> real \<Rightarrow> real list" where
  "gaussianKernel sigma de =
     (let width = \<lceil>5 * sigma / de\<rceil> in
      if width \<le> 0 then [1]
      else (let kernel = map (\<lambda>i. let x = real_of_int i * de
                                     in exp (- x * x / (2 * sigma * sigma))) [- width..width];
                total = sum_list kernel
            in map (\<lambda>v. v / total) kernel))"

text \<open>\<^verbatim>\<open>linspace(start, end, num)\<close> and \<^verbatim>\<open>meshgrid\<close>.\<close>

definition linspace :: "real \<Rightarrow> real \<Rightarrow> nat \<Rightarrow> real list" where
  "linspace start stop num =
     (let step = (stop - start) / (real num - 1)
      in map (\<lambda>i. start + real i * step) [0..<num])"

definition meshgrid :: "real list \<Rightarrow> real list \<Rightarrow> real list list \<times> real list list" where
  "meshgrid xAxis yAxis =
     (let rows = length yAxis; cols = length xAxis
      in (map (\<lambda>i. map (\<lambda>j. xAxis ! j) [0..<cols]) [0..<rows],
          map (\<lambda>i. map (\<lambda>j. yAxis ! i) [0..<cols]) [0..<rows]))"

section \<open>Forward simulator\<close>

record SimulatorParams =
  par_sigmaX :: real
  par_sigmaY :: real
  par_alpha :: real
  par_gammaX :: real
  par_gammaY :: real
  par_kappa :: real
  par_theta :: real
  par_sigmaRes :: real
  par_temp :: real
  par_poissonNoise :: "real option"
  par_gaussianNoise :: "real option"

record SimulationResult =
  res_energy :: "real list"
  res_spectrum :: "real list"
  res_spectrumClean :: "real list"
  res_idealFD :: "real list"
  res_irf :: "real list"
  res_image2D :: "real list list"
  res_spotProfile :: "real list list"
  res_yAxis :: "real list"
  res_sigmaSource :: real
  res_sigmaDetector :: real
  res_sigmaCombined :: real

record Grid =
  grid_eAxis :: "real list"
  grid_yAxis :: "real list"
  grid_E :: "real list list"
  grid_Y :: "real list list"
  grid_de :: real

text \<open>
  \<^verbatim>\<open>Math.max(...xs)\<close> on a non-empty array. (On the empty array the source obtains
  \<open>-\<infinity>\<close>; the simulator only applies it to arrays of 200 or 500 entries.)
\<close>

definition Math_max :: "real list \<Rightarrow> real" where
  "Math_max xs = Max (set xs)"

definition createGrid :: "real \<Rightarrow> real \<Rightarrow> nat \<Rightarrow> real \<Rightarrow> real \<Rightarrow> nat \<Rightarrow> Grid" where
  "createGrid eStart eEnd eSteps yStart yEnd ySteps =
     (let eAxis = linspace eStart eEnd eSteps;
          yAxis = linspace yStart yEnd ySteps;
          (E, Y) = meshgrid eAxis yAxis;
          de = eAxis ! 1 - eAxis ! 0
      in \<lparr>grid_eAxis = eAxis, grid_yAxis = yAxis, grid_E = E, grid_Y = Y, grid_de = de\<rparr>)"

definition generate2DEmission ::
  "Grid \<Rightarrow> real list \<Rightarrow> real \<Rightarrow> real \<Rightarrow> real \<Rightarrow> real list list" where
  "generate2DEmission grid trueSpectrum sigmaY gammaY alpha =
     (let yDistribution = skewGaussian (grid_yAxis grid) sigmaY gammaY;
          rows = length (grid_yAxis grid);
          cols = length (grid_eAxis grid)
      in map (\<lambda>i.
           let yVal = grid_yAxis grid ! i;
               shift = alpha * yVal;
               shiftedEnergy = map (\<lambda>e. e - shift) (grid_eAxis grid);
               shiftedSpec = interp shiftedEnergy (grid_eAxis grid) trueSpectrum
                               (Some (trueSpectrum ! 0)) (Some 0)
           in map (\<lambda>j. shiftedSpec ! j * yDistribution ! i) [0..<cols]) [0..<rows])"

definition get2DSpotProfile :: "Grid \<Rightarrow> real \<Rightarrow> real \<Rightarrow> real \<Rightarrow> real \<Rightarrow> real list list" where
  "get2DSpotProfile grid sigmaX sigmaY gammaX gammaY =
     ellipticalGaussian2D (grid_E grid) (grid_Y grid) sigmaX sigmaY gammaX gammaY 0"

text \<open>
  \<^verbatim>\<open>data[r]?.[c] ?? 0\<close>: a read outside the matrix yields \<open>0\<close>.
\<close>

definition cell_or_zero :: "real list list \<Rightarrow> int \<Rightarrow> int \<Rightarrow> real" where
  "cell_or_zero data r c =
     (if 0 \<le> r \<and> nat r < length data \<and> 0 \<le> c \<and> nat c < length (data ! nat r)
      then data ! nat r ! nat c else 0)"

definition bilinearInterp ::
  "real list \<Rightarrow> real list \<Rightarrow> real list list \<Rightarrow> real \<Rightarrow> real \<Rightarrow> real" where
  "bilinearInterp yAxis xAxis data y x =
     (let yMin = yAxis ! 0;
          yMax = yAxis ! (length yAxis - 1);
          xMin = xAxis ! 0;
          xMax = xAxis ! (length xAxis - 1)
      in if y < yMin \<or> y > yMax \<or> x < xMin \<or> x > xMax then 0
         else (let yStep = (yMax - yMin) / (real (length yAxis) - 1);
                   xStep = (xMax - xMin) / (real (length xAxis) - 1);
                   yi = (y - yMin) / yStep;
                   xi = (x - xMin) / xStep;
                   y0 = \<lfloor>yi\<rfloor>;
                   x0 = \<lfloor>xi\<rfloor>;
                   y1 = min (y0 + 1) (int (length yAxis) - 1);
                   x1 = min (x0 + 1) (int (length xAxis) - 1);
                   yt = yi - real_of_int y0;
                   xt = xi - real_of_int x0;
                   v00 = cell_or_zero data y0 x0;
                   v01 = cell_or_zero data y0 x1;
                   v10 = cell_or_zero data y1 x0;
                   v11 = cell_or_zero data y1 x1
               in v00 * (1 - xt) * (1 - yt) + v01 * xt * (1 - yt)
                  + v10 * (1 - xt) * yt + v11 * xt * yt))"

definition projectTo1D ::
  "Grid \<Rightarrow> real list list \<Rightarrow> real \<Rightarrow> real \<Rightarrow> real \<Rightarrow> real \<Rightarrow> real list" where
  "projectTo1D grid image2D kappa theta sigmaSource sigmaDetector =
     (let thetaRad = theta * pi / 180;
          cosTheta = cos thetaRad;
          sinTheta = sin thetaRad;
          rows = length (grid_yAxis grid);
          cols = length (grid_eAxis grid);
          yMax = Math_max (map abs (grid_yAxis grid));
          distortedImg = map (\<lambda>i. map (\<lambda>j.
              let e = grid_E grid ! i ! j;
                  y = grid_Y grid ! i ! j;
                  yNorm = y / yMax;
                  eSrc = e * cosTheta + y * sinTheta;
                  ySrc = - e * sinTheta + y * cosTheta;
                  eSrcCurved = eSrc - kappa * (yNorm * yNorm)
              in bilinearInterp (grid_yAxis grid) (grid_eAxis grid) image2D ySrc eSrcCurved)
              [0..<cols]) [0..<rows];
          spec1D = map (\<lambda>j. sum_list (map (\<lambda>i. distortedImg ! i ! j) [0..<rows])) [0..<cols];
          spec1D = (if sigmaSource > 0
                    then convolve spec1D (gaussianKernel sigmaSource (grid_de grid))
                    else spec1D);
          spec1D = (if sigmaDetector > 0
                    then convolve spec1D (gaussianKernel sigmaDetector (grid_de grid))
                    else spec1D)
      in spec1D)"

text \<open>
  \<^verbatim>\<open>addNoise\<close> draws from \<^verbatim>\<open>Math.random()\<close>. The values that the global generator
  hands out are the sequence \<open>rnd\<close>; \<open>k\<close> counts the draws made so far. Each sample
  consumes two draws for the Poisson-like term and two for the Gaussian term, when
  the respective level is switched on.
\<close>

fun addNoise :: "real list \<Rightarrow> real \<Rightarrow> real \<Rightarrow> (nat \<Rightarrow> real) \<Rightarrow> nat \<Rightarrow> real list" where
  "addNoise [] poissonLevel gaussianLevel rnd k = []"
| "addNoise (val # rest) poissonLevel gaussianLevel rnd k =
     (let (noisy, k) =
            (if poissonLevel > 1 / 10 ^ 5
             then (let scaleFactor = 1000 / poissonLevel;
                       lam = val * scaleFactor;
                       u1 = rnd k;
                       u2 = rnd (k + 1);
                       z = sqrt (- 2 * ln u1) * cos (2 * pi * u2)
                   in ((lam + z * sqrt (max lam 0)) / scaleFactor, k + 2))
             else (val, k));
          (noisy, k) =
            (if gaussianLevel > 0
             then (let u1 = rnd k;
                       u2 = rnd (k + 1);
                       z = sqrt (- 2 * ln u1) * cos (2 * pi * u2)
                   in (noisy + z * (gaussianLevel / 100), k + 2))
             else (noisy, k))
      in max 0 noisy # addNoise rest poissonLevel gaussianLevel rnd k)"

text \<open>
  \<^verbatim>\<open>gradient\<close>: central differences inside, one-sided differences written to the
  first and last slot afterwards (arrays of at least two entries).
\<close>

definition gradient :: "real list \<Rightarrow> real \<Rightarrow> real list" where
  "gradient data dx =
     (let n = length data;
          result = map (\<lambda>i. if 1 \<le> i \<and> i < n - 1
                             then (data ! (i + 1) - data ! (i - 1)) / (2 * dx) else 0) [0..<n];
          result = result[0 := (data ! 1 - data ! 0) / dx];
          result = result[n - 1 := (data ! (n - 1) - data ! (n - 2)) / dx]
      in result)"

definition simulate :: "SimulatorParams \<Rightarrow> (nat \<Rightarrow> real) \<Rightarrow> SimulationResult" where
  "simulate params rnd =
     (let gridExtended = createGrid (- 0.15) 0.15 750 (- 10) 10 200;
          grid = createGrid (- 0.1) 0.1 500 (- 10) 10 200;
          sigmaSourceEV = par_sigmaX params / 1000;
          sigmaDetectorEV = par_sigmaRes params / 1000;
          sigmaCombinedMeV = sqrt ((par_sigmaX params)\<^sup>2 + (par_sigmaRes params)\<^sup>2);
          idealFDExtended = fermiDirac (grid_eAxis gridExtended) (par_temp params) 0;
          image2DExtended = generate2DEmission gridExtended idealFDExtended
                              (par_sigmaY params) (par_gammaY params) (par_alpha params);
          spotProfile = get2DSpotProfile grid sigmaSourceEV
                          (par_sigmaY params) (par_gammaX params) (par_gammaY params);
          spectrumRawExtended = projectTo1D gridExtended image2DExtended
                                  (par_kappa params) (par_theta params)
                                  sigmaSourceEV sigmaDetectorEV;
          spectrumRaw = interp (grid_eAxis grid) (grid_eAxis gridExtended)
                          spectrumRawExtended None None;
          maxVal = Math_max spectrumRaw;
          spectrumClean = map (\<lambda>v. v / (maxVal + 1 / 10 ^ 12)) spectrumRaw;
          spectrum = addNoise spectrumClean
                       (case par_poissonNoise params of Some v \<Rightarrow> v | None \<Rightarrow> 0)
                       (case par_gaussianNoise params of Some v \<Rightarrow> v | None \<Rightarrow> 0) rnd 0;
          idealFD = fermiDirac (grid_eAxis grid) (par_temp params) 0;
          stepFD = fermiDirac (grid_eAxis gridExtended) 0.01 0;
          stepImage = generate2DEmission gridExtended stepFD
                        (par_sigmaY params) (par_gammaY params) (par_alpha params);
          stepSpectrumExtended = projectTo1D gridExtended stepImage
                                   (par_kappa params) (par_theta params)
                                   sigmaSourceEV sigmaDetectorEV;
          stepSpectrum = interp (grid_eAxis grid) (grid_eAxis gridExtended)
                           stepSpectrumExtended None None;
          irfRaw = gradient stepSpectrum (grid_de grid);
          irfMax = Math_max (map abs irfRaw);
          irf = map (\<lambda>v. - v / (irfMax + 1 / 10 ^ 12)) irfRaw;
          image2D = generate2DEmission grid idealFD
                      (par_sigmaY params) (par_gammaY params) (par_alpha params)
      in \<lparr>res_energy = map (\<lambda>e. e * 1000) (grid_eAxis grid),
          res_spectrum = spectrum,
          res_spectrumClean = spectrumClean,
          res_idealFD = idealFD,
          res_irf = irf,
          res_image2D = image2D,
          res_spotProfile = spotProfile,
          res_yAxis = grid_yAxis grid,
          res_sigmaSource = par_sigmaX params,
          res_sigmaDetector = par_sigmaRes params,
          res_sigmaCombined = sigmaCombinedMeV\<rparr>)"

definition defaultParams :: SimulatorParams where
  "defaultParams =
     \<lparr>par_sigmaX = 0.5, par_sigmaY = 0.5, par_alpha = 0.002, par_gammaX = 0, par_gammaY = 0,
      par_kappa = 0.01, par_theta = 0.08, par_sigmaRes = 1.5, par_temp = 5,
      par_poissonNoise = Some 2, par_gaussianNoise = Some 1\<rparr>"

text \<open>
  The low-temperature step spectrum of step 9 of \<^verbatim>\<open>simulate\<close> (the value of its local
  variable \<^verbatim>\<open>stepSpectrum\<close>), named so that statements can refer to it.
\<close>

definition stepSpectrum_of :: "SimulatorParams \<Rightarrow> real list" where
  "stepSpectrum_of params =
     (let gridExtended = createGrid (- 0.15) 0.15 750 (- 10) 10 200;
          grid = createGrid (- 0.1) 0.1 500 (- 10) 10 200;
          sigmaSourceEV = par_sigmaX params / 1000;
          sigmaDetectorEV = par_sigmaRes params / 1000;
          stepFD = fermiDirac (grid_eAxis gridExtended) 0.01 0;
          stepImage = generate2DEmission gridExtended stepFD
                        (par_sigmaY params) (par_gammaY params) (par_alpha params);
          stepSpectrumExtended = projectTo1D gridExtended stepImage
                                   (par_kappa params) (par_theta params)
                                   sigmaSourceEV sigmaDetectorEV
      in interp (grid_eAxis grid) (grid_eAxis gridExtended) stepSpectrumExtended None None)"

section \<open>Optimizers\<close>

record OptimizationBounds =
  bnd_lower :: "real list"
  bnd_upper :: "real list"

text \<open>
  \<^verbatim>\<open>DEOptions\<close>: every field is optional. The \<^verbatim>\<open>onProgress\<close> callback is an observer
  whose result the optimizer ignores and which cannot reach the optimizer's local
  variables; it is not part of the model.
\<close>

record DEOptions =
  deo_maxIterations :: "int option"
  deo_populationSize :: "nat option"
  deo_mutationFactor :: "real option"
  deo_crossoverRate :: "real option"
  deo_tolerance :: "real option"
  deo_seed :: "int option"

record DEResult =
  der_x :: "real list"
  der_fitness :: real
  der_iterations :: nat
  der_converged :: bool

text \<open>The exceptions that the modelled code can raise, with their message.\<close>

datatype error = TypeError string


text \<open>
  \<^verbatim>\<open>createRandom(seed)\<close> returns a closure over the mutable variable \<^verbatim>\<open>seed\<close>.
  \<open>createRandom seed\<close> is one call of that closure in the state \<open>seed\<close>: the drawn
  value and the new state. The variable is a JavaScript number that grows by
  \<^verbatim>\<open>0x6D2B79F5\<close> per call (an \<^typ>\<open>int\<close>; exact in the source below \<open>2\<^sup>5\<^sup>3\<close>); the
  bitwise operators and \<^verbatim>\<open>Math.imul\<close> work on its low 32 bits.
\<close>

definition createRandom :: "int \<Rightarrow> real \<times> int" where
  "createRandom seed =
     (let seed = seed + 0x6D2B79F5;
          t = (word_of_int seed :: 32 word);
          t = (t XOR drop_bit 15 t) * (t OR 1);
          t = t XOR (t + (t XOR drop_bit 7 t) * (t OR 61))
      in (real (unat (t XOR drop_bit 14 t)) / 4294967296, seed))"

text \<open>
  An objective is called for its value and may change the state \<open>'s\<close> of its
  environment (the evaluation counter of \<^verbatim>\<open>estimateIRFParameters\<close>, for one).
  A pure objective leaves the state alone and does not read it.
\<close>

type_synonym 's objective = "real list \<Rightarrow> 's \<Rightarrow> real \<times> 's"

definition pure_objective :: "(real list \<Rightarrow> real) \<Rightarrow> 's objective" where
  "pure_objective f = (\<lambda>x s. (f x, s))"

text \<open>
  Initialisation: \<^verbatim>\<open>bounds.lower.map((low, j) => low + random() * (high - low))\<close>
  draws once per dimension; \<open>initPopulation\<close> is the loop over the individuals,
  its numeric argument the number of individuals still to create.
\<close>

fun initIndividual :: "real list \<Rightarrow> nat \<Rightarrow> real list \<Rightarrow> int \<Rightarrow> real list \<times> int" where
  "initIndividual upper j [] seed = ([], seed)"
| "initIndividual upper j (low # lows) seed =
     (let high = upper ! j;
          (u, seed) = createRandom seed;
          (rest, seed) = initIndividual upper (Suc j) lows seed
      in ((low + u * (high - low)) # rest, seed))"

fun initPopulation ::
  "'s objective \<Rightarrow> OptimizationBounds \<Rightarrow> nat \<Rightarrow> real list list \<Rightarrow> real list \<Rightarrow> int \<Rightarrow> 's
   \<Rightarrow> real list list \<times> real list \<times> int \<times> 's" where
  "initPopulation objective bounds 0 population fitness seed s = (population, fitness, seed, s)"
| "initPopulation objective bounds (Suc n) population fitness seed s =
     (let (individual, seed) = initIndividual (bnd_upper bounds) 0 (bnd_lower bounds) seed;
          (f, s) = objective individual s
      in initPopulation objective bounds n (population @ [individual]) (fitness @ [f]) seed s)"

text \<open>The mutable variables of the main loop.\<close>

record 's DEState =
  st_population :: "real list list"
  st_fitness :: "real list"
  st_bestIdx :: nat
  st_bestFitness :: real
  st_bestIndividual :: "real list"
  st_seed :: int
  st_world :: 's

text \<open>
  The rejection loop \<^verbatim>\<open>while (candidates.length < 3)\<close>. Nothing bounds the number of
  its rounds (with fewer than four individuals it cannot finish), so it is a
  partial function.
\<close>

partial_function (option) selectCandidates ::
  "nat \<Rightarrow> nat \<Rightarrow> nat list \<Rightarrow> int \<Rightarrow> (nat list \<times> int) option" where
  "selectCandidates populationSize i candidates seed =
     (if length candidates < 3
      then (let (u, seed) = createRandom seed;
                idx = nat \<lfloor>u * real populationSize\<rfloor>
            in if idx \<noteq> i \<and> idx \<notin> set candidates
               then selectCandidates populationSize i (candidates @ [idx]) seed
               else selectCandidates populationSize i candidates seed)
      else Some (candidates, seed))"

text \<open>
  Crossover: \<^verbatim>\<open>population[i].map((val, j) => random() < crossoverRate ||
  j === Math.floor(random() * dim) ? donor[j] : val)\<close>. The second draw happens only
  when the first test fails, and it is a fresh draw for every \<open>j\<close>.
\<close>

fun crossover :: "real \<Rightarrow> nat \<Rightarrow> real list \<Rightarrow> nat \<Rightarrow> real list \<Rightarrow> int \<Rightarrow> real list \<times> int" where
  "crossover crossoverRate dim' donor j [] seed = ([], seed)"
| "crossover crossoverRate dim' donor j (val # vals) seed =
     (let (u1, seed) = createRandom seed
      in if u1 < crossoverRate
         then (let (rest, seed) = crossover crossoverRate dim' donor (Suc j) vals seed
               in (donor ! j # rest, seed))
         else (let (u2, seed) = createRandom seed;
                   (rest, seed) = crossover crossoverRate dim' donor (Suc j) vals seed
               in ((if int j = \<lfloor>u2 * real dim'\<rfloor> then donor ! j else val) # rest, seed)))"

text \<open>
  The body of \<^verbatim>\<open>for (let i = 0; i < populationSize; i++)\<close> for one target \<open>i\<close>:
  candidate selection, mutation, clamping of the donor, crossover, one evaluation
  of the objective, selection.
\<close>

definition deTarget ::
  "'s objective \<Rightarrow> OptimizationBounds \<Rightarrow> nat \<Rightarrow> real \<Rightarrow> real \<Rightarrow> nat \<Rightarrow> nat
   \<Rightarrow> 's DEState \<Rightarrow> 's DEState option" where
  "deTarget objective bounds populationSize mutationFactor crossoverRate dim' i st =
     (case selectCandidates populationSize i [] (st_seed st) of
        None \<Rightarrow> None
      | Some (candidates, seed) \<Rightarrow>
          (let a = candidates ! 0; b = candidates ! 1; c = candidates ! 2;
               population = st_population st;
               donor = map (\<lambda>j. population ! a ! j
                                 + mutationFactor * (population ! b ! j - population ! c ! j))
                           [0..<length (population ! a)];
               donor = map (\<lambda>j. max (bnd_lower bounds ! j) (min (bnd_upper bounds ! j) (donor ! j)))
                           [0..<dim'];
               (trial, seed) = crossover crossoverRate dim' donor 0 (population ! i) seed;
               (trialFitness, s) = objective trial (st_world st);
               st = st\<lparr>st_seed := seed, st_world := s\<rparr>
           in Some (if trialFitness < st_fitness st ! i
                    then (let st = st\<lparr>st_population := (st_population st)[i := trial],
                                       st_fitness := (st_fitness st)[i := trialFitness]\<rparr>
                          in if trialFitness < st_bestFitness st
                             then st\<lparr>st_bestFitness := trialFitness,
                                     st_bestIndividual := trial,
                                     st_bestIdx := i\<rparr>
                             else st)
                    else st)))"

text \<open>(The parameter \<open>dim'\<close> is the source's \<^verbatim>\<open>dim\<close>.) The sweep over the targets; \<open>n\<close> targets remain, the next one is \<open>i\<close>.\<close>

fun deSweep ::
  "'s objective \<Rightarrow> OptimizationBounds \<Rightarrow> nat \<Rightarrow> real \<Rightarrow> real \<Rightarrow> nat \<Rightarrow> nat \<Rightarrow> nat
   \<Rightarrow> 's DEState \<Rightarrow> 's DEState option" where
  "deSweep objective bounds populationSize mutationFactor crossoverRate dim' 0 i st = Some st"
| "deSweep objective bounds populationSize mutationFactor crossoverRate dim' (Suc n) i st =
     (case deTarget objective bounds populationSize mutationFactor crossoverRate dim' i st of
        None \<Rightarrow> None
      | Some st \<Rightarrow>
          deSweep objective bounds populationSize mutationFactor crossoverRate dim' n (Suc i) st)"

text \<open>\<^verbatim>\<open>while (iteration < maxIterations && !converged)\<close>.\<close>

function deLoop ::
  "'s objective \<Rightarrow> OptimizationBounds \<Rightarrow> nat \<Rightarrow> real \<Rightarrow> real \<Rightarrow> nat \<Rightarrow> int \<Rightarrow> real
   \<Rightarrow> nat \<Rightarrow> bool \<Rightarrow> real \<Rightarrow> 's DEState \<Rightarrow> (nat \<times> bool \<times> 's DEState) option" where
  "deLoop objective bounds populationSize mutationFactor crossoverRate dim' maxIterations tolerance
          iteration converged prevBestFitness st =
     (if int iteration < maxIterations \<and> \<not> converged
      then (case deSweep objective bounds populationSize mutationFactor crossoverRate dim'
                   populationSize 0 st of
              None \<Rightarrow> None
            | Some st \<Rightarrow>
                (let iteration = iteration + 1;
                     converged = (if \<bar>st_bestFitness st - prevBestFitness\<bar> < tolerance
                                  then True else converged);
                     prevBestFitness = st_bestFitness st
                 in deLoop objective bounds populationSize mutationFactor crossoverRate dim'
                      maxIterations tolerance iteration converged prevBestFitness st))
      else Some (iteration, converged, st))"
  by pat_completeness auto
termination
  by (relation "measure (\<lambda>(objective, bounds, populationSize, mutationFactor, crossoverRate, dim',
                            maxIterations, tolerance, iteration, converged, prevBestFitness, st).
                          nat (maxIterations - int iteration))") auto

declare deLoop.simps [simp del]

text \<open>
  \<^verbatim>\<open>differentialEvolution\<close>. With \<open>populationSize = 0\<close> the spread
  \<^verbatim>\<open>[...population[bestIdx]]\<close> of an undefined entry raises a \<^verbatim>\<open>TypeError\<close> (the
  message text is the engine's).
\<close>

definition differentialEvolution ::
  "'s objective \<Rightarrow> OptimizationBounds \<Rightarrow> DEOptions \<Rightarrow> 's \<Rightarrow> (error + DEResult \<times> 's) option" where
  "differentialEvolution objective bounds options s =
     (let maxIterations = (case deo_maxIterations options of Some v \<Rightarrow> v | None \<Rightarrow> 100);
          populationSize = (case deo_populationSize options of Some v \<Rightarrow> v | None \<Rightarrow> 15);
          mutationFactor = (case deo_mutationFactor options of Some v \<Rightarrow> v | None \<Rightarrow> 0.8);
          crossoverRate = (case deo_crossoverRate options of Some v \<Rightarrow> v | None \<Rightarrow> 0.7);
          tolerance = (case deo_tolerance options of Some v \<Rightarrow> v | None \<Rightarrow> 1 / 10 ^ 8);
          seed = (case deo_seed options of Some v \<Rightarrow> v | None \<Rightarrow> 42);
          dim = length (bnd_lower bounds);
          (population, fitness, seed, s) =
             initPopulation objective bounds populationSize [] [] seed s
      in if populationSize = 0
         then Some (Inl (TypeError ''population[bestIdx] is not iterable''))
         else (let (bestIdx, bestFitness) =
                     fold (\<lambda>i (bestIdx, bestFitness).
                             if fitness ! i < bestFitness then (i, fitness ! i)
                             else (bestIdx, bestFitness))
                          [1..<populationSize] (0, fitness ! 0);
                   bestIndividual = population ! bestIdx;
                   st = \<lparr>st_population = population, st_fitness = fitness,
                         st_bestIdx = bestIdx, st_bestFitness = bestFitness,
                         st_bestIndividual = bestIndividual, st_seed = seed, st_world = s\<rparr>
               in case deLoop objective bounds populationSize mutationFactor crossoverRate dim
                         maxIterations tolerance 0 False bestFitness st of
                    None \<Rightarrow> None
                  | Some (iteration, converged, st) \<Rightarrow>
                      Some (Inr (\<lparr>der_x = st_bestIndividual st, der_fitness = st_bestFitness st,
                                  der_iterations = iteration, der_converged = converged\<rparr>,
                                 st_world st))))"

subsection \<open>Levenberg--Marquardt\<close>

record LMOptions =
  lmo_maxIterations :: "int option"
  lmo_tolerance :: "real option"
  lmo_lambda :: "real option"
  lmo_lambdaUp :: "real option"
  lmo_lambdaDown :: "real option"

record LMResult =
  lmr_x :: "real list"
  lmr_residuals :: "real list"
  lmr_jacobian :: "real list list"
  lmr_covariance :: "real list list"
  lmr_iterations :: nat
  lmr_converged :: bool

text \<open>
  \<^verbatim>\<open>computeJacobian\<close> with its default step \<^verbatim>\<open>delta = 1e-7\<close> passed explicitly: entry
  \<open>(i, j)\<close> is the forward difference of residual \<open>i\<close> in parameter \<open>j\<close>.
\<close>

definition computeJacobian ::
  "(real list \<Rightarrow> real list) \<Rightarrow> real list \<Rightarrow> real \<Rightarrow> real list list" where
  "computeJacobian func params delta =
     (let residuals = func params;
          n = length residuals;
          p = length params
      in map (\<lambda>i. map (\<lambda>j. let paramsPlus = params[j := params ! j + delta];
                                  residualsPlus = func paramsPlus
                              in (residualsPlus ! i - residuals ! i) / delta) [0..<p]) [0..<n])"

text \<open>
  \<^verbatim>\<open>solve\<close>: Gaussian elimination with partial pivoting on the augmented matrix,
  then back substitution. A pivot below \<open>10\<^sup>-\<^sup>1\<^sup>2\<close> in magnitude is overwritten with
  \<open>10\<^sup>-\<^sup>1\<^sup>2\<close>; the function contains no \<^verbatim>\<open>throw\<close>. \<open>solve_column\<close> is the body of
  the loop over the columns.
\<close>

definition solve_column :: "nat \<Rightarrow> nat \<Rightarrow> real list list \<Rightarrow> real list list" where
  "solve_column n col aug =
     (let (maxRow, maxVal) =
            fold (\<lambda>row (maxRow, maxVal).
                    if \<bar>aug ! row ! col\<bar> > maxVal then (row, \<bar>aug ! row ! col\<bar>)
                    else (maxRow, maxVal))
                 [col + 1..<n] (col, \<bar>aug ! col ! col\<bar>);
          aug = (let r1 = aug ! maxRow; r2 = aug ! col in aug[col := r1, maxRow := r2]);
          aug = (if \<bar>aug ! col ! col\<bar> < 1 / 10 ^ 12
                 then aug[col := (aug ! col)[col := 1 / 10 ^ 12]] else aug)
      in fold (\<lambda>row aug.
                 let factor = aug ! row ! col / aug ! col ! col
                 in aug[row := map (\<lambda>j. if col \<le> j \<and> j \<le> n
                                          then aug ! row ! j - factor * aug ! col ! j
                                          else aug ! row ! j) [0..<length (aug ! row)]])
              [col + 1..<n] aug)"

definition solve :: "real list list \<Rightarrow> real list \<Rightarrow> real list" where
  "solve A b =
     (let n = length A;
          aug = map (\<lambda>i. A ! i @ [b ! i]) [0..<n];
          aug = fold (solve_column n) [0..<n] aug
      in fold (\<lambda>i x. x[i := fold (\<lambda>j xi. xi - aug ! i ! j * x ! j) [i + 1..<n] (aug ! i ! n)
                                / aug ! i ! i])
              (rev [0..<n]) (replicate n 0))"

definition inverse_matrix :: "real list list \<Rightarrow> real list list" where
  "inverse_matrix A =
     (let n = length A
      in map (\<lambda>j. map (\<lambda>i. solve A ((replicate n 0)[i := 1]) ! j) [0..<n]) [0..<n])"

definition sumSquares :: "real list \<Rightarrow> real" where
  "sumSquares residuals = foldl (\<lambda>sum r. sum + r * r) 0 residuals"

text \<open>The product \<open>J\<^sup>T J\<close> as both loops of \<^verbatim>\<open>levenbergMarquardt\<close> compute it.\<close>

definition JTJ :: "real list list \<Rightarrow> nat \<Rightarrow> nat \<Rightarrow> real list list" where
  "JTJ jacobian n p =
     map (\<lambda>i. map (\<lambda>j. sum_list (map (\<lambda>k. jacobian ! k ! i * jacobian ! k ! j) [0..<n]))
                   [0..<p]) [0..<p]"

record LMState =
  lms_params :: "real list"
  lms_residuals :: "real list"
  lms_cost :: real
  lms_lambda :: real
  lms_iteration :: nat
  lms_converged :: bool
  lms_jacobian :: "real list list"

text \<open>
  The body of the main loop. The \<^verbatim>\<open>try\<close> around \<^verbatim>\<open>solve\<close> has no effect, since
  \<^verbatim>\<open>solve\<close> raises nothing. \<^verbatim>\<open>Math.max(...delta.map(Math.abs)) < tolerance\<close> says
  that every entry of \<open>delta\<close> is below the tolerance in magnitude (and holds for the
  empty \<open>delta\<close>, whose maximum is \<open>-\<infinity>\<close>).
\<close>

definition lmStep ::
  "(real list \<Rightarrow> real list) \<Rightarrow> nat \<Rightarrow> real \<Rightarrow> real \<Rightarrow> real \<Rightarrow> LMState \<Rightarrow> LMState" where
  "lmStep func p tolerance lambdaUp lambdaDown st =
     (let JTJ_proper = JTJ (lms_jacobian st) (length (lms_residuals st)) p;
          JTr = map (\<lambda>i. sum_list (map (\<lambda>k. lms_jacobian st ! k ! i * lms_residuals st ! k)
                                        [0..<length (lms_residuals st)])) [0..<p];
          damped = map (\<lambda>i. map (\<lambda>j. let val = JTJ_proper ! i ! j
                                       in if i = j then val + lms_lambda st * (val + 1 / 10 ^ 10)
                                          else val) [0..<length (JTJ_proper ! i)])
                       [0..<length JTJ_proper];
          negJTr = map (\<lambda>v. - v) JTr;
          delta = solve damped negJTr;
          newParams = map (\<lambda>i. lms_params st ! i + delta ! i) [0..<length (lms_params st)];
          newResiduals = func newParams;
          newCost = sumSquares newResiduals;
          st = (if newCost < lms_cost st
                then (let improvement = lms_cost st - newCost;
                          cost = newCost
                      in st\<lparr>lms_params := newParams,
                            lms_residuals := newResiduals,
                            lms_cost := cost,
                            lms_lambda := lms_lambda st * lambdaDown,
                            lms_jacobian := computeJacobian func newParams (1 / 10 ^ 7),
                            lms_converged :=
                              (if improvement < tolerance * cost
                                  \<or> list_all (\<lambda>d. \<bar>d\<bar> < tolerance) delta
                               then True else lms_converged st)\<rparr>)
                else st\<lparr>lms_lambda := lms_lambda st * lambdaUp\<rparr>)
      in st\<lparr>lms_iteration := lms_iteration st + 1\<rparr>)"

text \<open>\<^verbatim>\<open>while (iteration < maxIterations && !converged)\<close>.\<close>

function lmLoop ::
  "(real list \<Rightarrow> real list) \<Rightarrow> nat \<Rightarrow> int \<Rightarrow> real \<Rightarrow> real \<Rightarrow> real \<Rightarrow> LMState \<Rightarrow> LMState" where
  "lmLoop func p maxIterations tolerance lambdaUp lambdaDown st =
     (if int (lms_iteration st) < maxIterations \<and> \<not> lms_converged st
      then lmLoop func p maxIterations tolerance lambdaUp lambdaDown
             (lmStep func p tolerance lambdaUp lambdaDown st)
      else st)"
  by pat_completeness auto
termination
  by (relation "measure (\<lambda>(func, p, maxIterations, tolerance, lambdaUp, lambdaDown, st).
                          nat (maxIterations - int (lms_iteration st)))")
     (auto simp: lmStep_def Let_def)

declare lmLoop.simps [simp del]

text \<open>
  \<^verbatim>\<open>levenbergMarquardt\<close>. The covariance is the scaled inverse of the regularised
  \<open>J\<^sup>T J\<close>; when the largest magnitude in the inverse is not finite (over the reals:
  when the inverse has no entries) or exceeds \<open>10\<^sup>1\<^sup>0\<close>, the source throws and its
  handler substitutes a diagonal matrix.
\<close>

definition levenbergMarquardt ::
  "(real list \<Rightarrow> real list) \<Rightarrow> real list \<Rightarrow> LMOptions \<Rightarrow> LMResult" where
  "levenbergMarquardt func initialParams options =
     (let maxIterations = (case lmo_maxIterations options of Some v \<Rightarrow> v | None \<Rightarrow> 100);
          tolerance = (case lmo_tolerance options of Some v \<Rightarrow> v | None \<Rightarrow> 1 / 10 ^ 8);
          initialLambda = (case lmo_lambda options of Some v \<Rightarrow> v | None \<Rightarrow> 0.001);
          lambdaUp = (case lmo_lambdaUp options of Some v \<Rightarrow> v | None \<Rightarrow> 10);
          lambdaDown = (case lmo_lambdaDown options of Some v \<Rightarrow> v | None \<Rightarrow> 0.1);
          p = length initialParams;
          params = initialParams;
          residuals = func params;
          cost = sumSquares residuals;
          jacobian = computeJacobian func params (1 / 10 ^ 7);
          st = lmLoop func p maxIterations tolerance lambdaUp lambdaDown
                 \<lparr>lms_params = params, lms_residuals = residuals, lms_cost = cost,
                  lms_lambda = initialLambda, lms_iteration = 0, lms_converged = False,
                  lms_jacobian = jacobian\<rparr>;
          residuals = lms_residuals st;
          cost = lms_cost st;
          JTJ_final = JTJ (lms_jacobian st) (length residuals) p;
          regularization = 1 / 10 ^ 10;
          JTJ_final = map (\<lambda>i. (JTJ_final ! i)[i := JTJ_final ! i ! i + regularization]) [0..<p];
          variance = cost / max 1 (real (length residuals) - real p);
          invJTJ = inverse_matrix JTJ_final;
          flat = concat invJTJ;
          covariance =
            (if flat = [] \<or> Math_max (map abs flat) > 10 ^ 10
             then (let scale = cost / max 1 (real (length residuals) - real p)
                   in map (\<lambda>i. map (\<lambda>j. if i = j then scale * 0.01 else 0) [0..<p]) [0..<p])
             else map (map (\<lambda>v. v * variance)) invJTJ)
      in \<lparr>lmr_x = lms_params st, lmr_residuals = residuals, lmr_jacobian = lms_jacobian st,
          lmr_covariance = covariance, lmr_iterations = lms_iteration st,
          lmr_converged = lms_converged st\<rparr>)"

subsection \<open>Curve fitting\<close>

record CurveFitOptions =
  cfo_useGlobalOpt :: "bool option"
  cfo_deOptions :: "DEOptions option"
  cfo_lmOptions :: "LMOptions option"

text \<open>
  \<^verbatim>\<open>paramErrors\<close> holds numbers or the \<^verbatim>\<open>NaN\<close> marker; the marker is \<^term>\<open>None\<close>.
\<close>

record CurveFitResult =
  cfr_params :: "real list"
  cfr_paramErrors :: "real option list"
  cfr_covariance :: "real list list"
  cfr_residuals :: "real list"
  cfr_rSquared :: real
  cfr_converged :: bool

definition emptyDEOptions :: DEOptions where
  "emptyDEOptions =
     \<lparr>deo_maxIterations = None, deo_populationSize = None, deo_mutationFactor = None,
      deo_crossoverRate = None, deo_tolerance = None, deo_seed = None\<rparr>"

definition emptyLMOptions :: LMOptions where
  "emptyLMOptions =
     \<lparr>lmo_maxIterations = None, lmo_tolerance = None, lmo_lambda = None,
      lmo_lambdaUp = None, lmo_lambdaDown = None\<rparr>"

text \<open>
  \<^verbatim>\<open>curveFit\<close>: Differential Evolution (when enabled), Levenberg--Marquardt from its
  best vector, projection into the bounds, \<open>R\<^sup>2\<close>, and the sanitised parameter
  errors. The test \<^verbatim>\<open>!isFinite(err)\<close> never fires on a real number. An exception of
  Differential Evolution propagates.
\<close>

definition curveFit ::
  "(real list \<Rightarrow> real list \<Rightarrow> real list) \<Rightarrow> real list \<Rightarrow> real list \<Rightarrow> real list
   \<Rightarrow> OptimizationBounds \<Rightarrow> CurveFitOptions \<Rightarrow> (error + CurveFitResult) option" where
  "curveFit model xData yData initialParams bounds options =
     (let useGlobalOpt = (case cfo_useGlobalOpt options of Some v \<Rightarrow> v | None \<Rightarrow> True);
          deOptions = (case cfo_deOptions options of Some v \<Rightarrow> v | None \<Rightarrow> emptyDEOptions);
          lmOptions = (case cfo_lmOptions options of Some v \<Rightarrow> v | None \<Rightarrow> emptyLMOptions);
          residualFunc = (\<lambda>params. let predicted = model xData params
                                    in map (\<lambda>i. yData ! i - predicted ! i) [0..<length yData]);
          objective = (\<lambda>params. let residuals = residualFunc params in sumSquares residuals);
          finish = (\<lambda>optimizedParams.
            let lmResult = levenbergMarquardt residualFunc optimizedParams lmOptions;
                finalParams = map (\<lambda>i. max (bnd_lower bounds ! i)
                                          (min (bnd_upper bounds ! i) (lmr_x lmResult ! i)))
                                  [0..<length (lmr_x lmResult)];
                yMean = foldl (\<lambda>a b. a + b) 0 yData / real (length yData);
                ssTot = foldl (\<lambda>sum y. sum + (y - yMean)\<^sup>2) 0 yData;
                ssRes = sumSquares (lmr_residuals lmResult);
                rSquared = 1 - ssRes / ssTot;
                paramErrors = map (\<lambda>i.
                    let row = lmr_covariance lmResult ! i;
                        err = sqrt \<bar>row ! i\<bar>;
                        paramValue = \<bar>finalParams ! i\<bar> + 1 / 10 ^ 10
                    in if err > 10 ^ 6 \<or> err > paramValue * 100 then None else Some err)
                    [0..<length (lmr_covariance lmResult)]
            in \<lparr>cfr_params = finalParams, cfr_paramErrors = paramErrors,
                cfr_covariance = lmr_covariance lmResult,
                cfr_residuals = lmr_residuals lmResult,
                cfr_rSquared = rSquared, cfr_converged = lmr_converged lmResult\<rparr>)
      in if useGlobalOpt
         then (case differentialEvolution (pure_objective objective) bounds
                      (deOptions\<lparr>deo_maxIterations :=
                                   Some (case deo_maxIterations deOptions of
                                           Some v \<Rightarrow> v | None \<Rightarrow> 100),
                                 deo_populationSize :=
                                   Some (case deo_populationSize deOptions of
                                           Some v \<Rightarrow> v | None \<Rightarrow> 15)\<rparr>) () of
                 None \<Rightarrow> None
               | Some (Inl e) \<Rightarrow> Some (Inl e)
               | Some (Inr (deResult, u)) \<Rightarrow> Some (Inr (finish (der_x deResult))))
         else Some (Inr (finish initialParams)))"

section \<open>Fitting entry points\<close>













section \<open>Auxiliary definitions for the proofs\<close>

text \<open>The Horner polynomial inside \<^const>\<open>erf\<close>, as a function of \<open>t\<close>.\<close>

definition erf_poly :: "real \<Rightarrow> real" where
  "erf_poly t = (((1.061405429 * t + - 1.453152027) * t + 1.421413741) * t + - 0.284496736) * t + 0.254829592"

text \<open>
  The part of \<^verbatim>\<open>curveFit\<close> that follows the choice of the starting vector, as a
  function of that vector.
\<close>

definition curveFit_finish ::
  "(real list \<Rightarrow> real list \<Rightarrow> real list) \<Rightarrow> real list \<Rightarrow> real list \<Rightarrow> OptimizationBounds
   \<Rightarrow> LMOptions \<Rightarrow> real list \<Rightarrow> CurveFitResult" where
  "curveFit_finish model xData yData bounds lmOptions optimizedParams =
     (let residualFunc = (\<lambda>params. let predicted = model xData params
                                    in map (\<lambda>i. yData ! i - predicted ! i) [0..<length yData]);
          lmResult = levenbergMarquardt residualFunc optimizedParams lmOptions;
          finalParams = map (\<lambda>i. max (bnd_lower bounds ! i)
                                    (min (bnd_upper bounds ! i) (lmr_x lmResult ! i)))
                            [0..<length (lmr_x lmResult)];
          yMean = foldl (\<lambda>a b. a + b) 0 yData / real (length yData);
          ssTot = foldl (\<lambda>sum y. sum + (y - yMean)\<^sup>2) 0 yData;
          ssRes = sumSquares (lmr_residuals lmResult);
          rSquared = 1 - ssRes / ssTot;
          paramErrors = map (\<lambda>i.
              let row = lmr_covariance lmResult ! i;
                  err = sqrt \<bar>row ! i\<bar>;
                  paramValue = \<bar>finalParams ! i\<bar> + 1 / 10 ^ 10
              in if err > 10 ^ 6 \<or> err > paramValue * 100 then None else Some err)
              [0..<length (lmr_covariance lmResult)]
      in \<lparr>cfr_params = finalParams, cfr_paramErrors = paramErrors,
          cfr_covariance = lmr_covariance lmResult,
          cfr_residuals = lmr_residuals lmResult,
          cfr_rSquared = rSquared, cfr_converged = lmr_converged lmResult\<rparr>)"

section \<open>Properties of the physics kernels\<close>

subsection \<open>The error-function approximation\<close>

text \<open>A quadratic with positive leading coefficient and negative discriminant is positive.\<close>

lemma quad_pos:
  fixes a b c t :: real
  assumes "0 < a" and "b * b < 4 * a * c"
  shows "0 < a * t * t + b * t + c"
proof -
  have "4 * a * (a * t * t + b * t + c) = (2 * a * t + b)\<^sup>2 + (4 * a * c - b * b)"
    by (simp add: power2_eq_square algebra_simps)
  moreover have "0 < (2 * a * t + b)\<^sup>2 + (4 * a * c - b * b)"
    using assms(2) by (simp add: add_nonneg_pos)
  ultimately have "0 < 4 * a * (a * t * t + b * t + c)" by simp
  with assms(1) show ?thesis by (simp add: zero_less_mult_iff)
qed

lemma erf_poly_pos: "0 < erf_poly t"
proof -
  have r: "0 < 1.061405429 * t * t + (- 1.453152027) * t + (1.421413741 - 0.9)"
    by (rule quad_pos) simp_all
  have "0 \<le> t * t * (1.061405429 * t * t + (- 1.453152027) * t + (1.421413741 - 0.9))"
    using r by (simp add: zero_le_mult_iff)
  moreover have "0 < 0.9 * t * t + (- 0.284496736) * t + 0.254829592"
    by (rule quad_pos) simp_all
  ultimately show ?thesis
    unfolding erf_poly_def by (simp add: algebra_simps)
qed

lemma erf_poly_le: assumes "0 \<le> t" "t \<le> 1" shows "erf_poly t \<le> 2"
proof -
  have "(1.061405429 * t + - 1.453152027) \<le> 0" using assms by simp
  then have "(1.061405429 * t + - 1.453152027) * t \<le> 0"
    using assms(1) by (rule mult_nonpos_nonneg)
  then have v3: "(1.061405429 * t + - 1.453152027) * t + 1.421413741 \<le> 1.421413741" by linarith
  have "((1.061405429 * t + - 1.453152027) * t + 1.421413741) * t \<le> 1.421413741 * t"
    using v3 assms(1) by (rule mult_right_mono)
  also have "\<dots> \<le> 1.421413741" using assms by simp
  finally have v2: "((1.061405429 * t + - 1.453152027) * t + 1.421413741) * t + - 0.284496736 \<le> 1.2" by simp
  have "(((1.061405429 * t + - 1.453152027) * t + 1.421413741) * t + - 0.284496736) * t \<le> 1.2 * t"
    using v2 assms(1) by (rule mult_right_mono)
  also have "\<dots> \<le> 1.2" using assms by simp
  finally show ?thesis unfolding erf_poly_def by simp
qed

lemma erf_eq: "erf x = (if x < 0 then - 1 else 1) * (1 - erf_poly (1 / (1 + 0.3275911 * \<bar>x\<bar>)) * (1 / (1 + 0.3275911 * \<bar>x\<bar>)) * exp (- \<bar>x\<bar> * \<bar>x\<bar>))"
  by (simp add: erf_def erf_poly_def Let_def)

lemma erf_abs_le_1: "\<bar>erf x\<bar> \<le> 1"
proof -
  define t where "t = 1 / (1 + 0.3275911 * \<bar>x\<bar>)"
  define E where "E = exp (- \<bar>x\<bar> * \<bar>x\<bar>)"
  have t: "0 < t" "t \<le> 1" by (simp_all add: t_def add_pos_nonneg)
  have E: "0 < E" "E \<le> 1" by (simp_all add: E_def)
  have q: "0 < erf_poly t" "erf_poly t \<le> 2" using erf_poly_pos erf_poly_le t by simp_all
  have lo: "0 \<le> erf_poly t * t * E" using q t E by simp
  have "erf_poly t * t \<le> 2 * 1" using q t by (intro mult_mono) simp_all
  then have "erf_poly t * t * E \<le> 2 * 1 * 1" using E q t by (intro mult_mono) simp_all
  then have hi: "erf_poly t * t * E \<le> 2" by simp
  have "\<bar>erf x\<bar> = \<bar>1 - erf_poly t * t * E\<bar>"
    by (simp add: erf_eq t_def E_def abs_mult)
  also have "\<dots> \<le> 1" using lo hi by simp
  finally show ?thesis .
qed

lemma erf_0: "erf 0 = 1 / 10 ^ 9"
  by (simp add: erf_def Let_def)

lemma erf_odd: "x \<noteq> 0 \<Longrightarrow> erf (- x) = - erf x"
  by (simp add: erf_def Let_def)

text \<open>
  Claim C7, as stated, asks for \<open>erf(0) = 0\<close>. At \<open>x = 0\<close> the code computes
  \<open>1 - (a1 + a2 + a3 + a4 + a5)\<close>, and the five coefficients add up to
  \<open>0.999999999\<close>, so the value is \<open>10\<^sup>-\<^sup>9\<close> and not \<open>0\<close>.
\<close>

theorem erf_zero_counterexample: "erf 0 \<noteq> 0"
  by (simp add: erf_def Let_def)

text \<open>
  Claim C7, amended: in exact arithmetic \<open>erf(0) = 10\<^sup>-\<^sup>9\<close>; the approximation is odd
  at every \<open>x \<noteq> 0\<close> (at \<open>0\<close> the sign test \<^verbatim>\<open>x < 0\<close> picks \<open>+1\<close> for both \<open>0\<close> and
  \<open>-0\<close>); and \<open>\<bar>erf(x)\<bar> \<le> 1\<close> for every \<open>x\<close>.
\<close>

theorem erf_approximation_laws:
  "erf 0 = 1 / 10 ^ 9 \<and> (x \<noteq> 0 \<longrightarrow> erf (- x) = - erf x) \<and> \<bar>erf x\<bar> \<le> 1"
  using erf_0 erf_odd erf_abs_le_1 by blast

text \<open>The amended statement at \<open>x = 1\<close>.\<close>

theorem erf_approximation_laws_witness:
  "(1::real) \<noteq> 0 \<and> erf (- 1) = - erf 1 \<and> \<bar>erf 1\<bar> \<le> 1"
  using erf_approximation_laws [of 1] by simp

subsection \<open>The Fermi--Dirac distribution\<close>











subsection \<open>The Gaussian kernel\<close>

lemma gk_unfold:
  "0 < \<lceil>5 * sigma / de\<rceil> \<Longrightarrow>
   gaussianKernel sigma de =
     map (\<lambda>v. v / sum_list (map (\<lambda>i. exp (- (real_of_int i * de) * (real_of_int i * de) / (2 * sigma * sigma))) [- \<lceil>5 * sigma / de\<rceil>..\<lceil>5 * sigma / de\<rceil>]))
         (map (\<lambda>i. exp (- (real_of_int i * de) * (real_of_int i * de) / (2 * sigma * sigma))) [- \<lceil>5 * sigma / de\<rceil>..\<lceil>5 * sigma / de\<rceil>])"
  by (simp add: gaussianKernel_def Let_def)

lemma sum_list_exp_nonneg: "0 \<le> sum_list (map (\<lambda>i. exp (f i :: real)) xs)"
  by (rule sum_list_nonneg) auto

lemma sum_list_exp_pos:
  "xs \<noteq> [] \<Longrightarrow> 0 < sum_list (map (\<lambda>i. exp (f i :: real)) xs)"
  using sum_list_exp_nonneg [of f "tl xs"] by (cases xs) (simp_all add: add_pos_nonneg)

lemma sum_list_map_divide:
  "sum_list (map (\<lambda>v. v / c) (xs :: real list)) = sum_list xs / c"
  by (induction xs) (simp_all add: add_divide_distrib)

text \<open>
  Claim C6: with \<open>w = \<lceil>5\<sigma>/de\<rceil>\<close>, if \<open>w > 0\<close> the kernel has \<open>2w + 1\<close> entries, the
  entries add up to \<open>1\<close>, and entry \<open>k\<close> equals entry \<open>2w - k\<close> for every
  \<open>k \<le> 2w\<close>; if \<open>w \<le> 0\<close> the kernel is \<open>[1]\<close>. (\<open>w > 0\<close> implies \<open>de \<noteq> 0\<close> and
  \<open>\<sigma> \<noteq> 0\<close>, so no quotient of the definition has a zero denominator.)
\<close>

theorem gaussianKernel_unit_sum_symmetric:
  "(0 < \<lceil>5 * sigma / de\<rceil> \<longrightarrow>
      length (gaussianKernel sigma de) = nat (2 * \<lceil>5 * sigma / de\<rceil> + 1)
      \<and> sum_list (gaussianKernel sigma de) = 1
      \<and> (\<forall>k \<le> nat (2 * \<lceil>5 * sigma / de\<rceil>).
            gaussianKernel sigma de ! k = gaussianKernel sigma de ! (nat (2 * \<lceil>5 * sigma / de\<rceil>) - k)))
   \<and> (\<lceil>5 * sigma / de\<rceil> \<le> 0 \<longrightarrow> gaussianKernel sigma de = [1])"
proof (intro conjI impI allI)
  assume w: "0 < \<lceil>5 * sigma / de\<rceil>"
  define w' where "w' = \<lceil>5 * sigma / de\<rceil>"
  define f where "f = (\<lambda>i. exp (- (real_of_int i * de) * (real_of_int i * de) / (2 * sigma * sigma)))"
  have wpos: "0 < w'" using w by (simp add: w'_def)
  have gk: "gaussianKernel sigma de = map (\<lambda>v. v / sum_list (map f [- w'..w'])) (map f [- w'..w'])"
    unfolding w'_def f_def using w by (rule gk_unfold)
  have ne: "[- w'..w'] \<noteq> []" using wpos by simp
  have tot: "0 < sum_list (map f [- w'..w'])"
    unfolding f_def using ne by (rule sum_list_exp_pos)
  show "length (gaussianKernel sigma de) = nat (2 * \<lceil>5 * sigma / de\<rceil> + 1)"
    using wpos by (simp add: gk) (simp add: w'_def)
  show "sum_list (gaussianKernel sigma de) = 1"
    using tot by (simp only: gk sum_list_map_divide) simp
  fix k assume "k \<le> nat (2 * \<lceil>5 * sigma / de\<rceil>)"
  then have k: "k \<le> nat (2 * w')" by (simp add: w'_def)
  have sym: "f (- i) = f i" for i by (simp add: f_def)
  have n1: "[- w'..w'] ! k = - w' + int k" using k wpos by (intro nth_upto) linarith
  have n2: "[- w'..w'] ! (nat (2 * w') - k) = - w' + int (nat (2 * w') - k)"
    using k wpos by (intro nth_upto) linarith
  have "- w' + int (nat (2 * w') - k) = - (- w' + int k)" using k wpos by linarith
  then have "f ([- w'..w'] ! (nat (2 * w') - k)) = f ([- w'..w'] ! k)"
    by (simp only: n1 n2 sym)
  moreover have "k < length [- w'..w']" "nat (2 * w') - k < length [- w'..w']"
    using k wpos by simp_all
  ultimately have "gaussianKernel sigma de ! k = gaussianKernel sigma de ! (nat (2 * w') - k)"
    by (simp add: gk)
  then show "gaussianKernel sigma de ! k = gaussianKernel sigma de ! (nat (2 * \<lceil>5 * sigma / de\<rceil>) - k)"
    by (simp add: w'_def)
next
  assume "\<lceil>5 * sigma / de\<rceil> \<le> 0"
  then show "gaussianKernel sigma de = [1]"
    by (simp add: gaussianKernel_def Let_def)
qed

text \<open>The statement at \<open>\<sigma> = 1\<close>, \<open>de = 5\<close> (half-width 1) and at \<open>\<sigma> = 0\<close>, \<open>de = 1\<close>.\<close>

theorem gaussianKernel_unit_sum_symmetric_witness:
  "(0::int) < \<lceil>5 * 1 / (5::real)\<rceil>
   \<and> length (gaussianKernel 1 5) = 3 \<and> sum_list (gaussianKernel 1 5) = 1
   \<and> gaussianKernel 1 5 ! 0 = gaussianKernel 1 5 ! 2
   \<and> \<lceil>5 * 0 / (1::real)\<rceil> \<le> 0 \<and> gaussianKernel 0 1 = [1]"
proof -
  have p: "(0::int) < \<lceil>5 * 1 / (5::real)\<rceil>" by simp
  have q: "\<lceil>5 * 0 / (1::real)\<rceil> \<le> 0" by simp
  note t = gaussianKernel_unit_sum_symmetric [of 1 5]
  note u = gaussianKernel_unit_sum_symmetric [of 0 1]
  have a: "length (gaussianKernel 1 5) = 3" using t p by simp
  have b: "sum_list (gaussianKernel 1 5) = 1" using t p by blast
  have c: "gaussianKernel 1 5 ! 0 = gaussianKernel 1 5 ! 2"
    using t [THEN conjunct1, THEN mp, OF p, THEN conjunct2, THEN conjunct2, THEN spec, of 0]
    by simp
  have d: "gaussianKernel 0 1 = [1]" using u q by blast
  show ?thesis using p q a b c d by blast
qed

section \<open>Properties of the forward simulator\<close>

subsection \<open>Array lengths on the display grid\<close>

lemma length_linspace: "length (linspace a b n) = n"
  by (simp add: linspace_def Let_def)

lemma length_createGrid_eAxis:
  "length (grid_eAxis (createGrid eStart eEnd eSteps yStart yEnd ySteps)) = eSteps"
  by (simp add: createGrid_def Let_def length_linspace split: prod.split)

lemma length_interp: "length (interp xNew xOld yOld leftVal rightVal) = length xNew"
  by (simp add: interp_def Let_def)

lemma length_gradient: "length (gradient data dx) = length data"
  by (simp add: gradient_def Let_def)

lemma length_stepSpectrum_of: "length (stepSpectrum_of params) = 500"
  by (simp add: stepSpectrum_of_def Let_def length_interp length_createGrid_eAxis)

subsection \<open>Normalisation of the response function\<close>

text \<open>
  The \<^verbatim>\<open>irf\<close> field is the negated gradient of the step spectrum divided by its
  largest magnitude plus \<open>10\<^sup>-\<^sup>1\<^sup>2\<close>.
\<close>

lemma simulate_irf_eq:
  "res_irf (simulate params rnd) =
     map (\<lambda>v. - v / (Math_max (map abs (gradient (stepSpectrum_of params)
                          (grid_de (createGrid (- 0.1) 0.1 500 (- 10) 10 200)))) + 1 / 10 ^ 12))
         (gradient (stepSpectrum_of params) (grid_de (createGrid (- 0.1) 0.1 500 (- 10) 10 200)))"
  by (simp add: simulate_def stepSpectrum_of_def Let_def)

lemma Math_max_abs_nonneg: "g \<noteq> [] \<Longrightarrow> 0 \<le> Math_max (map abs g)"
proof -
  assume "g \<noteq> []"
  then have "\<bar>hd g\<bar> \<in> set (map abs g)" by (cases g) simp_all
  then have "\<bar>hd g\<bar> \<le> Max (set (map abs g))" by (intro Max_ge) simp_all
  then show ?thesis unfolding Math_max_def by linarith
qed

lemma Math_max_scaled:
  assumes "g \<noteq> []" and "0 < (d::real)"
  shows "Math_max (map abs (map (\<lambda>v. - v / d) g)) = Math_max (map abs g) / d"
proof -
  have m: "mono (\<lambda>a::real. a / d)"
    using assms(2) by (intro monoI) (simp add: divide_right_mono)
  have "map abs (map (\<lambda>v. - v / d) g) = map (\<lambda>a. a / d) (map abs g)"
    using assms(2) by simp
  then have "set (map abs (map (\<lambda>v. - v / d) g)) = (\<lambda>a. a / d) ` set (map abs g)"
    by (simp only: set_map)
  moreover have "Max ((\<lambda>a. a / d) ` set (map abs g)) = Max (set (map abs g)) / d"
    using assms(1) by (intro mono_Max_commute [OF m, symmetric]) simp_all
  ultimately show ?thesis by (simp only: Math_max_def)
qed

lemma irf_normalised_below_1:
  assumes "g \<noteq> []"
  shows "Math_max (map abs (map (\<lambda>v. - v / (Math_max (map abs g) + 1 / 10 ^ 12)) g))
           = Math_max (map abs g) / (Math_max (map abs g) + 1 / 10 ^ 12)"
    and "Math_max (map abs (map (\<lambda>v. - v / (Math_max (map abs g) + 1 / 10 ^ 12)) g)) < 1"
proof -
  have M: "0 \<le> Math_max (map abs g)" using assms by (rule Math_max_abs_nonneg)
  then have d: "0 < Math_max (map abs g) + 1 / 10 ^ 12" by simp
  show eq: "Math_max (map abs (map (\<lambda>v. - v / (Math_max (map abs g) + 1 / 10 ^ 12)) g))
           = Math_max (map abs g) / (Math_max (map abs g) + 1 / 10 ^ 12)"
    using assms d by (rule Math_max_scaled)
  have "Math_max (map abs g) / (Math_max (map abs g) + 1 / 10 ^ 12) < 1"
    using d by simp
  then show "Math_max (map abs (map (\<lambda>v. - v / (Math_max (map abs g) + 1 / 10 ^ 12)) g)) < 1"
    by (simp only: eq)
qed

lemma display_gradient_nonempty:
  "gradient (stepSpectrum_of params) dx \<noteq> []"
proof -
  have "length (gradient (stepSpectrum_of params) dx) = 500"
    by (simp only: length_gradient length_stepSpectrum_of)
  then show ?thesis by auto
qed

text \<open>
  Claim C1, as stated, asks for \<open>max\<bar>irf\<bar> = 1\<close> exactly. The normaliser is the
  largest magnitude plus \<open>10\<^sup>-\<^sup>1\<^sup>2\<close>, so the maximum stays strictly below \<open>1\<close>; this
  holds in particular for the default parameters.
\<close>

theorem simulate_irf_max_counterexample:
  "Math_max (map abs (res_irf (simulate defaultParams (\<lambda>k. 1 / 2)))) \<noteq> 1"
proof -
  have "Math_max (map abs (res_irf (simulate defaultParams (\<lambda>k. 1 / 2)))) < 1"
    unfolding simulate_irf_eq
    by (rule irf_normalised_below_1(2) [OF display_gradient_nonempty])
  then show ?thesis by simp
qed

text \<open>
  Claim C1, amended: for all parameters with \<open>sigmaY \<noteq> 0\<close> (the one place where
  the pipeline of the step spectrum divides by a parameter; with \<open>sigmaY = 0\<close> the
  source produces no numbers), with \<open>g\<close> the numerical gradient of the
  low-temperature step spectrum on the display grid and \<open>M = max\<bar>g\<bar>\<close>, the \<^verbatim>\<open>irf\<close>
  vector has 500 entries, entry \<open>i\<close> is \<open>- g\<^sub>i / (M + 10\<^sup>-\<^sup>1\<^sup>2)\<close> (the sign is flipped),
  and \<open>max\<bar>irf\<bar> = M / (M + 10\<^sup>-\<^sup>1\<^sup>2)\<close>, which is strictly less than \<open>1\<close>.
\<close>

theorem simulate_irf_normalised:
  "par_sigmaY params \<noteq> 0 \<Longrightarrow>
   let g = gradient (stepSpectrum_of params) (grid_de (createGrid (- 0.1) 0.1 500 (- 10) 10 200));
       M = Math_max (map abs g);
       irf = res_irf (simulate params rnd)
   in length irf = 500
      \<and> (\<forall>i < 500. irf ! i = - (g ! i) / (M + 1 / 10 ^ 12))
      \<and> Math_max (map abs irf) = M / (M + 1 / 10 ^ 12)
      \<and> Math_max (map abs irf) < 1"
proof -
  define g where "g = gradient (stepSpectrum_of params) (grid_de (createGrid (- 0.1) 0.1 500 (- 10) 10 200))"
  define M where "M = Math_max (map abs g)"
  have irf: "res_irf (simulate params rnd) = map (\<lambda>v. - v / (M + 1 / 10 ^ 12)) g"
    unfolding g_def M_def by (rule simulate_irf_eq)
  have len: "length g = 500"
    unfolding g_def by (simp only: length_gradient length_stepSpectrum_of)
  have ne: "g \<noteq> []" using len by auto
  have a: "length (res_irf (simulate params rnd)) = 500" by (simp add: irf len)
  have b: "\<forall>i < 500. res_irf (simulate params rnd) ! i = - (g ! i) / (M + 1 / 10 ^ 12)"
    by (simp add: irf len)
  have c: "Math_max (map abs (res_irf (simulate params rnd))) = M / (M + 1 / 10 ^ 12)"
    unfolding irf M_def using ne by (rule irf_normalised_below_1(1))
  have d: "Math_max (map abs (res_irf (simulate params rnd))) < 1"
    unfolding irf M_def using ne by (rule irf_normalised_below_1(2))
  show ?thesis
    unfolding Let_def g_def [symmetric] M_def [symmetric] using a b c d by blast
qed

text \<open>The amended statement for the default parameters, at entry \<open>0\<close>.\<close>

theorem simulate_irf_normalised_witness:
  "par_sigmaY defaultParams \<noteq> 0 \<and> (0::nat) < 500
   \<and> res_irf (simulate defaultParams (\<lambda>k. 1 / 2)) ! 0
       = - (gradient (stepSpectrum_of defaultParams)
              (grid_de (createGrid (- 0.1) 0.1 500 (- 10) 10 200)) ! 0)
         / (Math_max (map abs (gradient (stepSpectrum_of defaultParams)
              (grid_de (createGrid (- 0.1) 0.1 500 (- 10) 10 200)))) + 1 / 10 ^ 12)
   \<and> Math_max (map abs (res_irf (simulate defaultParams (\<lambda>k. 1 / 2)))) < 1"
proof -
  have s: "par_sigmaY defaultParams \<noteq> 0" by (simp add: defaultParams_def)
  note t = simulate_irf_normalised [of defaultParams "\<lambda>k. 1 / 2", OF s, unfolded Let_def]
  have z: "(0::nat) < 500" by simp
  from t [THEN conjunct2, THEN conjunct1, THEN spec, THEN mp, OF z]
       t [THEN conjunct2, THEN conjunct2, THEN conjunct2] s z
  show ?thesis by blast
qed

subsection \<open>The noise levels reach the noisy spectrum only\<close>

text \<open>
  Claim C9: two parameter records that differ at most in \<^verbatim>\<open>poissonNoise\<close> and
  \<^verbatim>\<open>gaussianNoise\<close> (written as two updates of one record), run against any two
  sequences of \<^verbatim>\<open>Math.random()\<close> values, give results that agree in every field
  other than \<^verbatim>\<open>spectrum\<close>.
\<close>

theorem simulate_noise_noninterference:
  "let r1 = simulate (params\<lparr>par_poissonNoise := a, par_gaussianNoise := b\<rparr>) rnd1;
       r2 = simulate (params\<lparr>par_poissonNoise := c, par_gaussianNoise := d\<rparr>) rnd2
   in res_energy r1 = res_energy r2
      \<and> res_spectrumClean r1 = res_spectrumClean r2
      \<and> res_idealFD r1 = res_idealFD r2
      \<and> res_irf r1 = res_irf r2
      \<and> res_image2D r1 = res_image2D r2
      \<and> res_spotProfile r1 = res_spotProfile r2
      \<and> res_yAxis r1 = res_yAxis r2
      \<and> res_sigmaSource r1 = res_sigmaSource r2
      \<and> res_sigmaDetector r1 = res_sigmaDetector r2
      \<and> res_sigmaCombined r1 = res_sigmaCombined r2"
  by (simp add: simulate_def Let_def)

section \<open>Properties of Differential Evolution\<close>

subsection \<open>The random stream\<close>



text \<open>
  The rejection loop at work: with 15 individuals, target \<open>0\<close> and the stream in
  state 42, the draws \<open>0.601\<close>, \<open>0.448\<close> and \<open>0.852\<close> select the indices 9, 6 and 12.
\<close>

lemma selectCandidates_example:
  "selectCandidates 15 0 [] 42 = Some ([9, 6, 12], 5494697481)"
  by (simp add: selectCandidates.simps createRandom_def Let_def)

subsection \<open>A pure objective makes the run independent of its environment\<close>







subsection \<open>Crossover\<close>

lemma crossover_components:
  "crossover CR d donor j target seed = (trial, seed') \<Longrightarrow>
   length trial = length target
   \<and> (\<forall>k < length target. trial ! k = donor ! (j + k) \<or> trial ! k = target ! k)"
proof (induction target arbitrary: j seed trial seed')
  case Nil
  then show ?case by simp
next
  case (Cons val vals)
  obtain u1 s1 where r1: "createRandom seed = (u1, s1)" by (cases "createRandom seed") auto
  obtain u2 s2 where r2: "createRandom s1 = (u2, s2)" by (cases "createRandom s1") auto
  show ?case
  proof (cases "u1 < CR")
    case True
    obtain rest s3 where rec: "crossover CR d donor (Suc j) vals s1 = (rest, s3)"
      by (cases "crossover CR d donor (Suc j) vals s1") auto
    from Cons.prems True have t: "trial = donor ! j # rest" by (simp add: r1 rec)
    from Cons.IH [OF rec] show ?thesis
      by (auto simp: t nth_Cons split: nat.split)
  next
    case False
    obtain rest s3 where rec: "crossover CR d donor (Suc j) vals s2 = (rest, s3)"
      by (cases "crossover CR d donor (Suc j) vals s2") auto
    from Cons.prems False
    have t: "trial = (if int j = \<lfloor>u2 * real d\<rfloor> then donor ! j else val) # rest"
      by (simp add: r1 r2 rec)
    from Cons.IH [OF rec] show ?thesis
      by (auto simp: t nth_Cons split: nat.split)
  qed
qed

text \<open>
  Claim C5, as stated, promises a component inherited from the target. With
  \<open>CR = 0.7\<close>, two dimensions and the stream in state 42, both first draws
  (\<open>0.601\<close> and \<open>0.448\<close>) are below \<open>CR\<close>: the trial is the donor \<open>[1, 1]\<close> and
  shares no component with the target \<open>[0, 0]\<close>.
\<close>

theorem crossover_all_donor_counterexample:
  "fst (crossover 0.7 2 [1, 1] 0 [0, 0] 42) = [1, 1]
   \<and> fst (crossover 0.7 2 [1, 1] 0 [0, 0] 42) ! 0 \<noteq> [0, 0] ! 0
   \<and> fst (crossover 0.7 2 [1, 1] 0 [0, 0] 42) ! 1 \<noteq> [0, 0] ! 1"
  by (simp add: createRandom_def Let_def)

text \<open>
  Claim C5, amended: for every target, donor, crossover rate and state of the random
  stream, the trial vector has as many components as the target, and each of its
  components is the donor's or the target's component at the same index.
\<close>

theorem crossover_trial_components:
  "let trial = fst (crossover CR d donor 0 target seed)
   in length trial = length target
      \<and> (\<forall>k < length target. trial ! k = donor ! k \<or> trial ! k = target ! k)"
proof -
  obtain trial seed' where c: "crossover CR d donor 0 target seed = (trial, seed')"
    by (cases "crossover CR d donor 0 target seed") auto
  from crossover_components [OF c] show ?thesis by (simp add: c)
qed

text \<open>The amended statement at the input of the counterexample, component 0.\<close>

theorem crossover_trial_components_witness:
  "(0::nat) < length [0, 0 :: real]
   \<and> length (fst (crossover 0.7 2 [1, 1] 0 [0, 0] 42)) = length [0, 0 :: real]
   \<and> (fst (crossover 0.7 2 [1, 1] 0 [0, 0] 42) ! 0 = [1, 1] ! 0
        \<or> fst (crossover 0.7 2 [1, 1] 0 [0, 0] 42) ! 0 = [0, 0] ! 0)"
proof -
  note t = crossover_trial_components [of "0.7" 2 "[1, 1]" "[0, 0]" 42, unfolded Let_def]
  have z: "(0::nat) < length [0, 0 :: real]" by simp
  from t [THEN conjunct1] t [THEN conjunct2, THEN spec, THEN mp, OF z] z
  show ?thesis by blast
qed

subsection \<open>Counting the evaluations of the objective\<close>














section \<open>Properties of curve fitting and of the fitting entry points\<close>

subsection \<open>Shape of the Levenberg--Marquardt result\<close>

lemma length_lmStep_params:
  "length (lms_params (lmStep func p tol up down st)) = length (lms_params st)"
  by (simp add: lmStep_def Let_def)

lemma length_lmLoop_params:
  "length (lms_params (lmLoop func p maxIt tol up down st)) = length (lms_params st)"
proof (induction func p maxIt tol up down st rule: lmLoop.induct)
  case (1 func p maxIterations tolerance lambdaUp lambdaDown st)
  show ?case
  proof (cases "int (lms_iteration st) < maxIterations \<and> \<not> lms_converged st")
    case False
    show ?thesis using False by (subst lmLoop.simps) auto
  next
    case True
    have "lmLoop func p maxIterations tolerance lambdaUp lambdaDown st
          = lmLoop func p maxIterations tolerance lambdaUp lambdaDown
              (lmStep func p tolerance lambdaUp lambdaDown st)"
      using True by (subst lmLoop.simps) simp
    then show ?thesis by (simp only: "1.IH" [OF True] length_lmStep_params)
  qed
qed

lemma length_inverse_matrix: "length (inverse_matrix A) = length A"
  by (simp add: inverse_matrix_def Let_def)

lemma length_levenbergMarquardt:
  "length (lmr_x (levenbergMarquardt func initialParams options)) = length initialParams"
  "length (lmr_covariance (levenbergMarquardt func initialParams options)) = length initialParams"
  by (simp_all add: levenbergMarquardt_def Let_def length_lmLoop_params length_inverse_matrix)


lemma curveFit_cases:
  assumes "curveFit model xData yData initialParams bounds options = Some (Inr result)"
  shows "\<exists>optimizedParams.
           result = curveFit_finish model xData yData bounds
                      (case cfo_lmOptions options of Some v \<Rightarrow> v | None \<Rightarrow> emptyLMOptions)
                      optimizedParams"
  using assms unfolding curveFit_def curveFit_finish_def Let_def
  by (auto split: if_splits option.splits sum.splits prod.splits)

lemma curveFit_local:
  "curveFit model xData yData initialParams bounds
     \<lparr>cfo_useGlobalOpt = Some False, cfo_deOptions = d, cfo_lmOptions = l\<rparr>
   = Some (Inr (curveFit_finish model xData yData bounds
                  (case l of Some v \<Rightarrow> v | None \<Rightarrow> emptyLMOptions) initialParams))"
  unfolding curveFit_def curveFit_finish_def Let_def by simp

lemma curveFit_finish_props:
  fixes model xData yData bounds lmOptions optimizedParams
  defines "result \<equiv> curveFit_finish model xData yData bounds lmOptions optimizedParams"
  shows curveFit_finish_lengths: "length (cfr_paramErrors result) = length (cfr_params result)"
    and curveFit_finish_cov: "length (cfr_covariance result) = length (cfr_params result)"
    and curveFit_finish_param:
      "i < length (cfr_params result) \<Longrightarrow>
       cfr_params result ! i
         = max (bnd_lower bounds ! i) (min (bnd_upper bounds ! i)
             (lmr_x (levenbergMarquardt
                (\<lambda>params. map (\<lambda>i. yData ! i - model xData params ! i) [0..<length yData])
                optimizedParams lmOptions) ! i))"
    and curveFit_finish_error:
      "i < length (cfr_paramErrors result) \<Longrightarrow>
       cfr_paramErrors result ! i
         = (if sqrt \<bar>cfr_covariance result ! i ! i\<bar> > 10 ^ 6
               \<or> sqrt \<bar>cfr_covariance result ! i ! i\<bar> > (\<bar>cfr_params result ! i\<bar> + 1 / 10 ^ 10) * 100
            then None else Some (sqrt \<bar>cfr_covariance result ! i ! i\<bar>))"
  unfolding result_def curveFit_finish_def Let_def
  by (simp_all add: length_levenbergMarquardt)

lemma length_inverse_matrix_row:
  "i < length A \<Longrightarrow> length (inverse_matrix A ! i) = length A"
  by (simp add: inverse_matrix_def Let_def)

lemma lmLoop_no_iterations:
  "lmLoop func p 0 tol up down st = st"
  by (subst lmLoop.simps) simp

lemma levenbergMarquardt_zero_cost:
  assumes "lmo_maxIterations options = Some 0"
    and "sumSquares (func initialParams) = 0"
    and "i < length initialParams"
  shows "lmr_covariance (levenbergMarquardt func initialParams options) ! i ! i = 0"
  using assms
  by (simp add: levenbergMarquardt_def Let_def lmLoop_no_iterations
        length_inverse_matrix length_inverse_matrix_row)

lemma clamp_in_bounds:
  fixes l u x :: real
  shows "l \<le> u \<Longrightarrow> l \<le> max l (min u x) \<and> max l (min u x) \<le> u"
  by auto

subsection \<open>Bounds and parameter errors of \<^verbatim>\<open>curveFit\<close>\<close>

text \<open>
  Claim C8, as stated, calls every reported parameter error finite and positive.
  Fitting \<open>y = p\<^sub>0 + x\<close> to the exact data \<open>(0, 1), (1, 2)\<close> from \<open>p\<^sub>0 = 1\<close>, without
  global search and with no Levenberg--Marquardt iteration, leaves the cost at \<open>0\<close>;
  the covariance is the zero matrix and the reported error is \<open>0\<close>: a number, not the
  marker, and not positive.
\<close>

theorem curveFit_paramErrors_zero_counterexample:
  "map_option (map_sum id cfr_paramErrors)
     (curveFit (\<lambda>x p. map (\<lambda>xi. p ! 0 + xi) x) [0, 1] [1, 2] [1]
        \<lparr>bnd_lower = [0], bnd_upper = [2]\<rparr>
        \<lparr>cfo_useGlobalOpt = Some False, cfo_deOptions = None,
         cfo_lmOptions = Some (emptyLMOptions\<lparr>lmo_maxIterations := Some 0\<rparr>)\<rparr>)
   = Some (Inr [Some 0])"
proof -
  define result where "result = curveFit_finish (\<lambda>x p. map (\<lambda>xi. p ! 0 + xi) x) [0, 1] [1, 2]
        \<lparr>bnd_lower = [0], bnd_upper = [2]\<rparr> (emptyLMOptions\<lparr>lmo_maxIterations := Some 0\<rparr>) [1]"
  have run: "curveFit (\<lambda>x p. map (\<lambda>xi. p ! 0 + xi) x) [0, 1] [1, 2] [1]
        \<lparr>bnd_lower = [0], bnd_upper = [2]\<rparr>
        \<lparr>cfo_useGlobalOpt = Some False, cfo_deOptions = None,
         cfo_lmOptions = Some (emptyLMOptions\<lparr>lmo_maxIterations := Some 0\<rparr>)\<rparr>
      = Some (Inr result)"
    unfolding result_def by (simp only: curveFit_local option.case)
  have cov: "cfr_covariance result ! 0 ! 0 = 0"
    unfolding result_def curveFit_finish_def Let_def
    by (simp add: levenbergMarquardt_zero_cost sumSquares_def)
  have len: "length (cfr_paramErrors result) = 1"
    unfolding result_def curveFit_finish_def Let_def
    by (simp add: length_levenbergMarquardt)
  have "cfr_paramErrors result ! 0 = Some 0"
    using curveFit_finish_error [of 0 "\<lambda>x p. map (\<lambda>xi. p ! 0 + xi) x" "[0, 1]" "[1, 2]"
            "\<lparr>bnd_lower = [0], bnd_upper = [2]\<rparr>" "emptyLMOptions\<lparr>lmo_maxIterations := Some 0\<rparr>" "[1]"]
          len cov
    unfolding result_def [symmetric]
    by (simp add: add_nonneg_pos)
  then have "cfr_paramErrors result = [Some 0]"
    using len by (cases "cfr_paramErrors result") auto
  then show ?thesis by (simp add: run)
qed

text \<open>
  Claim C8, amended: whenever \<^verbatim>\<open>curveFit\<close> returns a result, there is one parameter
  error per parameter; every parameter whose index has a lower and an upper bound
  with \<open>lower \<le> upper\<close> lies between them; and every parameter error is either the
  \<^verbatim>\<open>NaN\<close> marker or the value \<open>\<surd>\<bar>covariance[i][i]\<bar>\<close>, which is then non-negative (it
  can be \<open>0\<close>), at most \<open>10\<^sup>6\<close> and at most \<open>100 \<cdot> (\<bar>params[i]\<bar> + 10\<^sup>-\<^sup>1\<^sup>0)\<close>.
\<close>

theorem curveFit_params_and_errors:
  assumes "curveFit model xData yData initialParams bounds options = Some (Inr result)"
  shows "length (cfr_paramErrors result) = length (cfr_params result)
       \<and> (\<forall>i < length (cfr_params result).
             i < length (bnd_lower bounds) \<and> i < length (bnd_upper bounds)
             \<and> bnd_lower bounds ! i \<le> bnd_upper bounds ! i
             \<longrightarrow> bnd_lower bounds ! i \<le> cfr_params result ! i
                 \<and> cfr_params result ! i \<le> bnd_upper bounds ! i)
       \<and> (\<forall>i < length (cfr_paramErrors result).
             cfr_paramErrors result ! i = None
             \<or> (cfr_paramErrors result ! i = Some (sqrt \<bar>cfr_covariance result ! i ! i\<bar>)
                 \<and> 0 \<le> sqrt \<bar>cfr_covariance result ! i ! i\<bar>
                 \<and> sqrt \<bar>cfr_covariance result ! i ! i\<bar> \<le> 10 ^ 6
                 \<and> sqrt \<bar>cfr_covariance result ! i ! i\<bar>
                      \<le> 100 * (\<bar>cfr_params result ! i\<bar> + 1 / 10 ^ 10)))"
proof -
  from curveFit_cases [OF assms] obtain optimizedParams where
    r: "result = curveFit_finish model xData yData bounds
                   (case cfo_lmOptions options of Some v \<Rightarrow> v | None \<Rightarrow> emptyLMOptions)
                   optimizedParams"
    by blast
  have a: "length (cfr_paramErrors result) = length (cfr_params result)"
    unfolding r by (rule curveFit_finish_lengths)
  have b: "bnd_lower bounds ! i \<le> cfr_params result ! i
           \<and> cfr_params result ! i \<le> bnd_upper bounds ! i"
    if "i < length (cfr_params result)" "bnd_lower bounds ! i \<le> bnd_upper bounds ! i" for i
    using that(1) unfolding r
    by (simp only: curveFit_finish_param clamp_in_bounds [OF that(2)])
  have c: "cfr_paramErrors result ! i = None
             \<or> (cfr_paramErrors result ! i = Some (sqrt \<bar>cfr_covariance result ! i ! i\<bar>)
                 \<and> 0 \<le> sqrt \<bar>cfr_covariance result ! i ! i\<bar>
                 \<and> sqrt \<bar>cfr_covariance result ! i ! i\<bar> \<le> 10 ^ 6
                 \<and> sqrt \<bar>cfr_covariance result ! i ! i\<bar>
                      \<le> 100 * (\<bar>cfr_params result ! i\<bar> + 1 / 10 ^ 10))"
    if "i < length (cfr_paramErrors result)" for i
  proof -
    have e: "cfr_paramErrors result ! i
         = (if sqrt \<bar>cfr_covariance result ! i ! i\<bar> > 10 ^ 6
               \<or> sqrt \<bar>cfr_covariance result ! i ! i\<bar> > (\<bar>cfr_params result ! i\<bar> + 1 / 10 ^ 10) * 100
            then None else Some (sqrt \<bar>cfr_covariance result ! i ! i\<bar>))"
      using that unfolding r by (rule curveFit_finish_error)
    show ?thesis
      by (cases "sqrt \<bar>cfr_covariance result ! i ! i\<bar> > 10 ^ 6
               \<or> sqrt \<bar>cfr_covariance result ! i ! i\<bar> > (\<bar>cfr_params result ! i\<bar> + 1 / 10 ^ 10) * 100")
         (simp_all add: e mult.commute)
  qed
  show ?thesis using a b c by blast
qed

text \<open>The amended statement on the fit of the counterexample.\<close>

theorem curveFit_params_and_errors_witness:
  "\<exists>result.
     curveFit (\<lambda>x p. map (\<lambda>xi. p ! 0 + xi) x) [0, 1] [1, 2] [1]
        \<lparr>bnd_lower = [0], bnd_upper = [2]\<rparr>
        \<lparr>cfo_useGlobalOpt = Some False, cfo_deOptions = None,
         cfo_lmOptions = Some (emptyLMOptions\<lparr>lmo_maxIterations := Some 0\<rparr>)\<rparr>
       = Some (Inr result)
     \<and> 0 < length (cfr_params result)
     \<and> [0] ! 0 \<le> cfr_params result ! 0 \<and> cfr_params result ! 0 \<le> [2] ! 0
     \<and> length (cfr_paramErrors result) = length (cfr_params result)"
proof -
  define result where "result = curveFit_finish (\<lambda>x p. map (\<lambda>xi. p ! 0 + xi) x) [0, 1] [1, 2]
        \<lparr>bnd_lower = [0], bnd_upper = [2]\<rparr> (emptyLMOptions\<lparr>lmo_maxIterations := Some 0\<rparr>) [1]"
  have run: "curveFit (\<lambda>x p. map (\<lambda>xi. p ! 0 + xi) x) [0, 1] [1, 2] [1]
        \<lparr>bnd_lower = [0], bnd_upper = [2]\<rparr>
        \<lparr>cfo_useGlobalOpt = Some False, cfo_deOptions = None,
         cfo_lmOptions = Some (emptyLMOptions\<lparr>lmo_maxIterations := Some 0\<rparr>)\<rparr>
      = Some (Inr result)"
    unfolding result_def by (simp only: curveFit_local option.case)
  have len: "length (cfr_params result) = 1"
    unfolding result_def curveFit_finish_def Let_def
    by (simp add: length_levenbergMarquardt)
  note t = curveFit_params_and_errors [OF run]
  have z: "0 < length (cfr_params result)" using len by simp
  have "[0] ! 0 \<le> cfr_params result ! 0 \<and> cfr_params result ! 0 \<le> [2] ! 0"
    using t [THEN conjunct2, THEN conjunct1, THEN spec, THEN mp, OF z] by simp
  with run z t [THEN conjunct1] show ?thesis by blast
qed

subsection \<open>The fitting entry points validate nothing\<close>









end
